theory Spec2Isabelle
  imports Complex_Main
begin

section \<open>VeriLeaf AI pipeline: the numeric core of \<open>api_server.py\<close>\<close>

text \<open>
  The embedding follows \<open>src/client/ai_pipeline/api_server.py\<close>. Python and numpy
  floats are idealised as the reals: every arithmetic operation is exact, and the IEEE
  values NaN and \<open>\<plusminus>\<close>Infinity are not part of the model. Comparison, \<open>abs\<close> and
  \<open>np.clip\<close> are the same on floats and on reals; the statements below are about what
  the code does with its formulas, thresholds, clamps and dictionary lookups.
\<close>

subsection \<open>Constants and helpers\<close>

text \<open>\<open>EPS = 1e-6\<close> (line 65).\<close>

definition EPS :: real where
  "EPS = 1 / 1000000"

text \<open>\<open>np.clip(a, a_min, a_max)\<close> is \<open>minimum(maximum(a, a_min), a_max)\<close>.\<close>

definition clip :: "real \<Rightarrow> real \<Rightarrow> real \<Rightarrow> real" where
  "clip a a_min a_max = min (max a a_min) a_max"

text \<open>
  A metrics summary is a Python \<open>Dict[str, float]\<close>; \<open>d.get(key, default)\<close> never
  raises.
\<close>

type_synonym summary = "string \<rightharpoonup> real"

definition dict_get :: "summary \<Rightarrow> string \<Rightarrow> real \<Rightarrow> real" where
  "dict_get d key dflt = (case d key of None \<Rightarrow> dflt | Some v \<Rightarrow> v)"

text \<open>
  The only operation of \<open>_impact_analysis\<close> that can raise is the division of two
  Python floats, which raises \<open>ZeroDivisionError\<close> when the divisor is zero.
\<close>

datatype error = ZeroDivisionError

definition py_truediv :: "real \<Rightarrow> real \<Rightarrow> error + real" where
  "py_truediv x y = (if y = 0 then Inl ZeroDivisionError else Inr (x / y))"

subsection \<open>The FVC formula of \<open>_compute_indices\<close> (lines 172--175, 185)\<close>

text \<open>
  The function works element-wise on the raster; the definitions give the value at one
  pixel. \<open>fvc\<close> is line 175, as a function of the \<open>vndvi\<close> value of the pixel it is
  computed from, and \<open>fvc_index\<close> is the value returned under the key \<open>'fvc'\<close>
  (line 185). The divisor \<open>ndvi_veg - ndvi_soil + EPS\<close> is a positive constant.
\<close>

definition ndvi_soil :: real where
  "ndvi_soil = 2 / 10"

definition ndvi_veg :: real where
  "ndvi_veg = 86 / 100"

definition fvc :: "real \<Rightarrow> real" where
  "fvc v = (clip ((v - ndvi_soil) / (ndvi_veg - ndvi_soil + EPS)) 0 1) ^ 2"

definition fvc_index :: "real \<Rightarrow> real" where
  "fvc_index v = clip (fvc v) 0 1"

subsection \<open>\<open>_impact_analysis\<close> (lines 211--253)\<close>

record impact_report =
  impact_score :: real
  confidence :: real
  category :: string
  ndvi_change_percent :: real
  evi_change_percent :: real
  fvc_change_percent :: real
  lai_change_percent :: real
  weighted_score :: real

text \<open>The nested function \<open>change_pct\<close> (lines 212--215), closed over both summaries.\<close>

definition change_pct :: "summary \<Rightarrow> summary \<Rightarrow> string \<Rightarrow> error + real" where
  "change_pct before after metric =
     (let b = dict_get before (metric @ ''_mean'') 0;
          a = dict_get after (metric @ ''_mean'') 0
      in case py_truediv (a - b) (\<bar>b\<bar> + EPS) of
           Inl e \<Rightarrow> Inl e
         | Inr q \<Rightarrow> Inr (q * 100))"

text \<open>The \<open>if\<close>/\<open>elif\<close> chain of lines 225--234.\<close>

definition category_of :: "real \<Rightarrow> string" where
  "category_of score =
     (if score \<ge> 80 then ''Excellent''
      else if score \<ge> 65 then ''Good''
      else if score \<ge> 50 then ''Moderate''
      else if score \<ge> 35 then ''Poor''
      else ''Very Poor'')"

text \<open>The generator expression summed in lines 239--241.\<close>

definition noise_of :: "summary \<Rightarrow> summary \<Rightarrow> real" where
  "noise_of before after =
     sum_list (map (\<lambda>m. \<bar>dict_get before (m @ ''_std'') 0 - dict_get after (m @ ''_std'') 0\<bar>)
                   [''ndvi'', ''evi'', ''fvc'', ''lai''])"

definition impact_analysis :: "summary \<Rightarrow> summary \<Rightarrow> error + impact_report" where
  "impact_analysis before after =
     (case change_pct before after ''ndvi'' of Inl e \<Rightarrow> Inl e | Inr ndvi_ch \<Rightarrow>
     (case change_pct before after ''evi'' of Inl e \<Rightarrow> Inl e | Inr evi_ch \<Rightarrow>
     (case change_pct before after ''fvc'' of Inl e \<Rightarrow> Inl e | Inr fvc_ch \<Rightarrow>
     (case change_pct before after ''lai'' of Inl e \<Rightarrow> Inl e | Inr lai_ch \<Rightarrow>
        (let weighted = 0.4 * ndvi_ch + 0.2 * evi_ch + 0.2 * fvc_ch + 0.2 * lai_ch;
             score = clip (50 + weighted / 2) 0 100;
             cat = category_of score;
             conf = 70;
             noise = noise_of before after;
             conf = clip (conf - noise * 5) 50 95
         in Inr \<lparr>impact_score = score,
                 confidence = conf,
                 category = cat,
                 ndvi_change_percent = ndvi_ch,
                 evi_change_percent = evi_ch,
                 fvc_change_percent = fvc_ch,
                 lai_change_percent = lai_ch,
                 weighted_score = weighted\<rparr>)))))"

subsection \<open>The formulas as the specification words them\<close>

text \<open>
  Section 4.3 of the specification: the percent change of a metric from its two means,
  and \<open>clamp(x, lo, hi)\<close>. They are compared with what \<open>impact_analysis\<close> computes.
\<close>

definition spec_percent_change :: "real \<Rightarrow> real \<Rightarrow> real" where
  "spec_percent_change b a = ((a - b) / (\<bar>b\<bar> + EPS)) * 100"

definition spec_clamp :: "real \<Rightarrow> real \<Rightarrow> real \<Rightarrow> real" where
  "spec_clamp x lo hi = (if x < lo then lo else if hi < x then hi else x)"

section \<open>Properties\<close>

subsection \<open>Shared facts\<close>

lemma clip_spec_clamp: "lo \<le> hi \<Longrightarrow> clip x lo hi = spec_clamp x lo hi"
  by (simp add: clip_def spec_clamp_def)

lemma change_pct_Inr:
  "change_pct before after metric =
     Inr (spec_percent_change (dict_get before (metric @ ''_mean'') 0)
                              (dict_get after (metric @ ''_mean'') 0))"
proof -
  have "0 \<le> \<bar>dict_get before (metric @ ''_mean'') 0\<bar>"
    by simp
  moreover have "0 < EPS"
    by (simp add: EPS_def)
  ultimately have "\<bar>dict_get before (metric @ ''_mean'') 0\<bar> + EPS \<noteq> 0"
    by linarith
  then show ?thesis
    by (simp add: change_pct_def py_truediv_def Let_def spec_percent_change_def)
qed

lemma impact_analysis_total: "\<exists>r. impact_analysis before after = Inr r"
  by (simp only: impact_analysis_def change_pct_Inr sum.case Let_def) blast

lemma impact_analysis_fields:
  assumes "impact_analysis before after = Inr r"
  shows "ndvi_change_percent r =
           spec_percent_change (dict_get before ''ndvi_mean'' 0) (dict_get after ''ndvi_mean'' 0)"
    and "evi_change_percent r =
           spec_percent_change (dict_get before ''evi_mean'' 0) (dict_get after ''evi_mean'' 0)"
    and "fvc_change_percent r =
           spec_percent_change (dict_get before ''fvc_mean'' 0) (dict_get after ''fvc_mean'' 0)"
    and "lai_change_percent r =
           spec_percent_change (dict_get before ''lai_mean'' 0) (dict_get after ''lai_mean'' 0)"
    and "weighted_score r = 0.4 * ndvi_change_percent r + 0.2 * evi_change_percent r
                            + 0.2 * fvc_change_percent r + 0.2 * lai_change_percent r"
    and "impact_score r = clip (50 + weighted_score r / 2) 0 100"
    and "category r = category_of (impact_score r)"
    and "confidence r = clip (70 - noise_of before after * 5) 50 95"
  using assms
  by (auto simp add: impact_analysis_def change_pct_Inr Let_def)

lemma noise_of_expand:
  "noise_of before after =
     \<bar>dict_get before ''ndvi_std'' 0 - dict_get after ''ndvi_std'' 0\<bar>
   + \<bar>dict_get before ''evi_std'' 0 - dict_get after ''evi_std'' 0\<bar>
   + \<bar>dict_get before ''fvc_std'' 0 - dict_get after ''fvc_std'' 0\<bar>
   + \<bar>dict_get before ''lai_std'' 0 - dict_get after ''lai_std'' 0\<bar>"
  by (simp add: noise_of_def)

lemma noise_of_nonneg: "0 \<le> noise_of before after"
  by (simp add: noise_of_expand)

lemma spec_percent_change_same: "spec_percent_change b b = 0"
  by (simp add: spec_percent_change_def)

lemma dict_get_upd_None:
  "d k = None \<Longrightarrow> dict_get (d(k \<mapsto> 0)) key 0 = dict_get d key 0"
  by (simp add: dict_get_def)

lemma dict_get_None: "d k = None \<Longrightarrow> dict_get d k dflt = dflt"
  by (simp add: dict_get_def)

lemma impact_analysis_upd_before:
  "before k = None \<Longrightarrow> impact_analysis (before(k \<mapsto> 0)) after = impact_analysis before after"
  by (simp only: impact_analysis_def change_pct_def noise_of_def dict_get_upd_None)

lemma impact_analysis_upd_after:
  "after k = None \<Longrightarrow> impact_analysis before (after(k \<mapsto> 0)) = impact_analysis before after"
  by (simp only: impact_analysis_def change_pct_def noise_of_def dict_get_upd_None)

lemma fvc_divisor_pos: "0 < ndvi_veg - ndvi_soil + EPS"
  by (simp add: ndvi_veg_def ndvi_soil_def EPS_def)

lemma fvc_mono: "x \<le> y \<Longrightarrow> fvc x \<le> fvc y"
proof -
  assume xy: "x \<le> y"
  have "(x - ndvi_soil) / (ndvi_veg - ndvi_soil + EPS) \<le> (y - ndvi_soil) / (ndvi_veg - ndvi_soil + EPS)"
    using xy fvc_divisor_pos by (simp add: divide_right_mono)
  then have "clip ((x - ndvi_soil) / (ndvi_veg - ndvi_soil + EPS)) 0 1
           \<le> clip ((y - ndvi_soil) / (ndvi_veg - ndvi_soil + EPS)) 0 1"
    by (simp add: clip_def)
  moreover have "0 \<le> clip ((x - ndvi_soil) / (ndvi_veg - ndvi_soil + EPS)) 0 1"
    by (simp add: clip_def)
  ultimately show ?thesis
    unfolding fvc_def by (rule power_mono)
qed

lemma fvc_range: "0 \<le> fvc x \<and> fvc x \<le> 1"
  by (simp add: fvc_def clip_def power_le_one_iff)

lemma fvc_index_eq: "fvc_index x = fvc x"
  using fvc_range [of x] by (simp add: fvc_index_def clip_def)

lemma fvc_saturates: "ndvi_veg + EPS \<le> x \<Longrightarrow> fvc x = 1"
proof -
  assume x: "ndvi_veg + EPS \<le> x"
  have "1 \<le> (x - ndvi_soil) / (ndvi_veg - ndvi_soil + EPS)"
    using x fvc_divisor_pos by (simp add: le_divide_eq)
  then have "clip ((x - ndvi_soil) / (ndvi_veg - ndvi_soil + EPS)) 0 1 = 1"
    by (simp add: clip_def)
  then show ?thesis
    by (simp add: fvc_def)
qed

subsection \<open>Fractional vegetation cover\<close>

text \<open>
  Claim C2, as the code has it. The FVC value is monotonically non-decreasing in the NDVI
  value it is computed from, for every NDVI value from the soil anchor 0.2 upwards; this
  holds both before and after the final clip of line 185. Because the divisor is
  \<open>0.86 - 0.2 + EPS\<close>, the value is exactly 1 for every NDVI value that is at least
  \<open>0.86 + EPS\<close>.
\<close>

theorem fvc_monotone_saturates:
  "(ndvi_soil \<le> x \<and> x \<le> y \<longrightarrow> fvc x \<le> fvc y \<and> fvc_index x \<le> fvc_index y)
   \<and> (ndvi_veg + EPS \<le> x \<longrightarrow> fvc x = 1 \<and> fvc_index x = 1)"
  by (auto simp add: fvc_index_eq fvc_mono fvc_saturates)

text \<open>
  Both hypotheses hold at concrete NDVI values: 0.3 and 0.5 above the soil anchor, and
  0.9 above \<open>0.86 + EPS\<close>.
\<close>

theorem fvc_monotone_saturates_witness:
  "ndvi_soil \<le> 3 / 10 \<and> (3 / 10 :: real) \<le> 5 / 10 \<and> fvc (3 / 10) \<le> fvc (5 / 10)
   \<and> fvc_index (3 / 10) \<le> fvc_index (5 / 10)
   \<and> ndvi_veg + EPS \<le> 9 / 10 \<and> fvc (9 / 10) = 1 \<and> fvc_index (9 / 10) = 1"
  using fvc_monotone_saturates [of "3 / 10" "5 / 10"] fvc_monotone_saturates [of "9 / 10" "9 / 10"]
  by (simp add: ndvi_soil_def ndvi_veg_def EPS_def)

text \<open>
  Claim C2 as the specification words it fails at the vegetation anchor itself: for the
  NDVI value 0.86 the ratio is \<open>0.66 / 0.660001\<close>, the clip leaves it unchanged and
  its square is below 1.
\<close>

theorem fvc_at_veg_anchor_below_one:
  "fvc (86 / 100) = (660000 / 660001) ^ 2 \<and> fvc (86 / 100) \<noteq> 1 \<and> fvc_index (86 / 100) \<noteq> 1"
  by (simp add: fvc_index_def fvc_def clip_def ndvi_soil_def ndvi_veg_def EPS_def power2_eq_square)

subsection \<open>Impact score\<close>

text \<open>
  Claim C3. \<open>_impact_analysis\<close> returns for every pair of summaries. The four percent
  changes it reports are the specification's percent change of the two \<open>_mean\<close>
  entries, \<open>weighted_score\<close> is their weighted sum with weights 0.4, 0.2, 0.2, 0.2,
  and \<open>impact_score\<close> is \<open>clamp(50 + weighted_score / 2, 0, 100)\<close>. When the
  before-summary and the after-summary are the same mapping, the weighted score is 0 and
  the impact score is exactly 50.
\<close>

theorem impact_score_formula:
  "\<exists>r. impact_analysis before after = Inr r
     \<and> ndvi_change_percent r = spec_percent_change (dict_get before ''ndvi_mean'' 0) (dict_get after ''ndvi_mean'' 0)
     \<and> evi_change_percent r = spec_percent_change (dict_get before ''evi_mean'' 0) (dict_get after ''evi_mean'' 0)
     \<and> fvc_change_percent r = spec_percent_change (dict_get before ''fvc_mean'' 0) (dict_get after ''fvc_mean'' 0)
     \<and> lai_change_percent r = spec_percent_change (dict_get before ''lai_mean'' 0) (dict_get after ''lai_mean'' 0)
     \<and> weighted_score r = 0.4 * ndvi_change_percent r + 0.2 * evi_change_percent r
                           + 0.2 * fvc_change_percent r + 0.2 * lai_change_percent r
     \<and> impact_score r = spec_clamp (50 + weighted_score r / 2) 0 100
     \<and> (before = after \<longrightarrow> weighted_score r = 0 \<and> impact_score r = 50)"
proof -
  obtain r where r: "impact_analysis before after = Inr r"
    using impact_analysis_total by blast
  note f = impact_analysis_fields [OF r]
  have score: "impact_score r = spec_clamp (50 + weighted_score r / 2) 0 100"
    by (simp add: f(6) clip_spec_clamp)
  have same: "weighted_score r = 0 \<and> impact_score r = 50" if "before = after"
  proof -
    have w: "weighted_score r = 0"
      by (simp only: f(5) f(1-4) that spec_percent_change_same mult_zero_right add_0_right)
    show ?thesis
      by (simp add: w score spec_clamp_def)
  qed
  show ?thesis
    using r f(1-5) score same by blast
qed

text \<open>Two identical (and incomplete) summaries give the impact score 50.\<close>

theorem impact_score_formula_witness:
  "\<exists>r. impact_analysis [''ndvi_mean'' \<mapsto> 3 / 10, ''lai_mean'' \<mapsto> 2]
                        [''ndvi_mean'' \<mapsto> 3 / 10, ''lai_mean'' \<mapsto> 2] = Inr r
      \<and> weighted_score r = 0 \<and> impact_score r = 50"
  using impact_score_formula [of "[''ndvi_mean'' \<mapsto> 3 / 10, ''lai_mean'' \<mapsto> 2]"
                                 "[''ndvi_mean'' \<mapsto> 3 / 10, ''lai_mean'' \<mapsto> 2]"]
  by auto


subsection \<open>Category\<close>

text \<open>
  Claim C4. The category of a report is decided by its impact score alone, and for every
  score \<open>s\<close>: \<open>s \<ge> 80\<close> gives Excellent, \<open>65 \<le> s < 80\<close> Good,
  \<open>50 \<le> s < 65\<close> Moderate, \<open>35 \<le> s < 50\<close> Poor and \<open>s < 35\<close> Very Poor.
  In particular 80.0 is Excellent, 79.999 Good, 50.0 Moderate, 49.999 Poor and
  0.0 Very Poor.
\<close>

theorem category_thresholds:
  "(\<exists>r. impact_analysis before after = Inr r \<and> category r = category_of (impact_score r))
   \<and> (80 \<le> s \<longrightarrow> category_of s = ''Excellent'')
   \<and> (65 \<le> s \<and> s < 80 \<longrightarrow> category_of s = ''Good'')
   \<and> (50 \<le> s \<and> s < 65 \<longrightarrow> category_of s = ''Moderate'')
   \<and> (35 \<le> s \<and> s < 50 \<longrightarrow> category_of s = ''Poor'')
   \<and> (s < 35 \<longrightarrow> category_of s = ''Very Poor'')
   \<and> category_of 80 = ''Excellent''
   \<and> category_of (79999 / 1000) = ''Good''
   \<and> category_of 50 = ''Moderate''
   \<and> category_of (49999 / 1000) = ''Poor''
   \<and> category_of 0 = ''Very Poor''"
proof -
  have "\<exists>r. impact_analysis before after = Inr r \<and> category r = category_of (impact_score r)"
    using impact_analysis_total impact_analysis_fields(7) by blast
  then show ?thesis
    by (simp add: category_of_def)
qed

text \<open>One score inside each of the five bands, the lower edge 35 among them.\<close>

theorem category_thresholds_witness:
  "(80::real) \<le> 92 \<and> category_of 92 = ''Excellent''
   \<and> (65::real) \<le> 70 \<and> (70::real) < 80 \<and> category_of 70 = ''Good''
   \<and> (50::real) \<le> 64 \<and> (64::real) < 65 \<and> category_of 64 = ''Moderate''
   \<and> (35::real) \<le> 35 \<and> (35::real) < 50 \<and> category_of 35 = ''Poor''
   \<and> (34::real) < 35 \<and> category_of 34 = ''Very Poor''"
  using category_thresholds [of Map.empty Map.empty 92]
    category_thresholds [of Map.empty Map.empty 70]
    category_thresholds [of Map.empty Map.empty 64]
    category_thresholds [of Map.empty Map.empty 35]
    category_thresholds [of Map.empty Map.empty 34]
  by simp

subsection \<open>Confidence\<close>

text \<open>
  Claim C5. For every pair of summaries the reported confidence is
  \<open>clamp(70 - 5 * \<Sum>|before[m_std] - after[m_std]|, 50, 95)\<close>, the sum taken over
  ndvi, evi, fvc and lai, and so it is never below 50 and never above 95.
\<close>

theorem confidence_formula_bounds:
  "\<exists>r. impact_analysis before after = Inr r
     \<and> confidence r =
         spec_clamp (70 - 5 * (\<bar>dict_get before ''ndvi_std'' 0 - dict_get after ''ndvi_std'' 0\<bar>
                              + \<bar>dict_get before ''evi_std'' 0 - dict_get after ''evi_std'' 0\<bar>
                              + \<bar>dict_get before ''fvc_std'' 0 - dict_get after ''fvc_std'' 0\<bar>
                              + \<bar>dict_get before ''lai_std'' 0 - dict_get after ''lai_std'' 0\<bar>)) 50 95
     \<and> 50 \<le> confidence r \<and> confidence r \<le> 95"
proof -
  obtain r where r: "impact_analysis before after = Inr r"
    using impact_analysis_total by blast
  have c: "confidence r = spec_clamp (70 - 5 * noise_of before after) 50 95"
    by (simp add: impact_analysis_fields(8) [OF r] clip_spec_clamp mult.commute)
  have "50 \<le> confidence r \<and> confidence r \<le> 95"
    by (simp add: c spec_clamp_def)
  then show ?thesis
    using r c unfolding noise_of_expand by blast
qed

text \<open>
  Claim C9. The penalty \<open>5 * noise\<close> is never negative, so for every pair of summaries
  the reported confidence lies between 50 and 70; the upper clamp bound 95 is never
  reached.
\<close>

theorem confidence_at_most_70:
  "\<exists>r. impact_analysis before after = Inr r
     \<and> 0 \<le> 5 * noise_of before after
     \<and> 50 \<le> confidence r \<and> confidence r \<le> 70 \<and> confidence r \<noteq> 95"
proof -
  obtain r where r: "impact_analysis before after = Inr r"
    using impact_analysis_total by blast
  have n: "0 \<le> noise_of before after"
    by (rule noise_of_nonneg)
  have "50 \<le> confidence r \<and> confidence r \<le> 70"
    using n by (simp add: impact_analysis_fields(8) [OF r] clip_def)
  then show ?thesis
    using r n by auto
qed

subsection \<open>Incomplete summaries\<close>

text \<open>
  Claim C10. \<open>_impact_analysis\<close> returns a report for every pair of mappings, whatever
  keys they hold. A key that is absent from the before-summary, or from the
  after-summary, gives the same result as that key bound to 0. The percent change of a
  metric whose \<open>_mean\<close> key is absent from both summaries is 0.
\<close>

theorem missing_keys_default_zero:
  "(\<exists>r. impact_analysis before after = Inr r)
   \<and> (before k = None \<longrightarrow> impact_analysis before after = impact_analysis (before(k \<mapsto> 0)) after)
   \<and> (after k = None \<longrightarrow> impact_analysis before after = impact_analysis before (after(k \<mapsto> 0)))
   \<and> (before (m @ ''_mean'') = None \<and> after (m @ ''_mean'') = None
        \<longrightarrow> change_pct before after m = Inr 0)
   \<and> (before ''ndvi_mean'' = None \<and> after ''ndvi_mean'' = None
        \<longrightarrow> (\<exists>r. impact_analysis before after = Inr r \<and> ndvi_change_percent r = 0))
   \<and> (before ''evi_mean'' = None \<and> after ''evi_mean'' = None
        \<longrightarrow> (\<exists>r. impact_analysis before after = Inr r \<and> evi_change_percent r = 0))
   \<and> (before ''fvc_mean'' = None \<and> after ''fvc_mean'' = None
        \<longrightarrow> (\<exists>r. impact_analysis before after = Inr r \<and> fvc_change_percent r = 0))
   \<and> (before ''lai_mean'' = None \<and> after ''lai_mean'' = None
        \<longrightarrow> (\<exists>r. impact_analysis before after = Inr r \<and> lai_change_percent r = 0))"
proof -
  obtain r where r: "impact_analysis before after = Inr r"
    using impact_analysis_total by blast
  note f = impact_analysis_fields [OF r]
  have pct: "change_pct before after m = Inr 0"
    if "before (m @ ''_mean'') = None" "after (m @ ''_mean'') = None"
    by (simp add: change_pct_Inr dict_get_None that spec_percent_change_same)
  have ndvi: "ndvi_change_percent r = 0"
    if "before ''ndvi_mean'' = None" "after ''ndvi_mean'' = None"
    by (simp add: f(1) dict_get_None that spec_percent_change_same)
  have evi: "evi_change_percent r = 0"
    if "before ''evi_mean'' = None" "after ''evi_mean'' = None"
    by (simp add: f(2) dict_get_None that spec_percent_change_same)
  have fvc: "fvc_change_percent r = 0"
    if "before ''fvc_mean'' = None" "after ''fvc_mean'' = None"
    by (simp add: f(3) dict_get_None that spec_percent_change_same)
  have lai: "lai_change_percent r = 0"
    if "before ''lai_mean'' = None" "after ''lai_mean'' = None"
    by (simp add: f(4) dict_get_None that spec_percent_change_same)
  show ?thesis
    using r pct ndvi evi fvc lai impact_analysis_upd_before [of before k after]
      impact_analysis_upd_after [of after k before]
    by auto
qed

text \<open>
  Two summaries that hold \<open>evi_mean\<close> only: \<open>ndvi_mean\<close> is absent from both.
\<close>

theorem missing_keys_default_zero_witness:
  "(\<exists>r. impact_analysis [''evi_mean'' \<mapsto> 1 / 10] [''evi_mean'' \<mapsto> 2 / 10] = Inr r \<and> ndvi_change_percent r = 0)
   \<and> impact_analysis [''evi_mean'' \<mapsto> 1 / 10] [''evi_mean'' \<mapsto> 2 / 10]
       = impact_analysis [''evi_mean'' \<mapsto> 1 / 10, ''ndvi_mean'' \<mapsto> 0] [''evi_mean'' \<mapsto> 2 / 10]
   \<and> impact_analysis [''evi_mean'' \<mapsto> 1 / 10] [''evi_mean'' \<mapsto> 2 / 10]
       = impact_analysis [''evi_mean'' \<mapsto> 1 / 10] [''evi_mean'' \<mapsto> 2 / 10, ''ndvi_mean'' \<mapsto> 0]
   \<and> change_pct [''evi_mean'' \<mapsto> 1 / 10] [''evi_mean'' \<mapsto> 2 / 10] ''ndvi'' = Inr 0"
proof -
  have b: "[''evi_mean'' \<mapsto> 1 / 10 :: real] ''ndvi_mean'' = None"
    by simp
  have a: "[''evi_mean'' \<mapsto> 2 / 10 :: real] ''ndvi_mean'' = None"
    by simp
  have k: "''ndvi'' @ ''_mean'' = ''ndvi_mean''"
    by simp
  show ?thesis
    using missing_keys_default_zero [of "[''evi_mean'' \<mapsto> 1 / 10]" "[''evi_mean'' \<mapsto> 2 / 10]"
        "''ndvi_mean''" "''ndvi''"]
    unfolding k using a b by blast
qed

subsection \<open>The doubled-means scenario\<close>

text \<open>
  Claim C6 as the specification words it fails: on the before-summary with means 0.2,
  0.1, 0.1, 0.1 and all four standard deviations 0, and the after-summary with the means
  doubled, the code does not return the weighted score 100 and the impact score 100.
\<close>

theorem doubled_means_scenario_not_100:
  "\<not> (\<exists>r. impact_analysis
      [''ndvi_mean'' \<mapsto> 2 / 10, ''evi_mean'' \<mapsto> 1 / 10, ''fvc_mean'' \<mapsto> 1 / 10, ''lai_mean'' \<mapsto> 1 / 10,
       ''ndvi_std'' \<mapsto> 0, ''evi_std'' \<mapsto> 0, ''fvc_std'' \<mapsto> 0, ''lai_std'' \<mapsto> 0]
      [''ndvi_mean'' \<mapsto> 4 / 10, ''evi_mean'' \<mapsto> 2 / 10, ''fvc_mean'' \<mapsto> 2 / 10, ''lai_mean'' \<mapsto> 2 / 10,
       ''ndvi_std'' \<mapsto> 0, ''evi_std'' \<mapsto> 0, ''fvc_std'' \<mapsto> 0, ''lai_std'' \<mapsto> 0] = Inr r
     \<and> weighted_score r = 100 \<and> impact_score r = 100 \<and> category r = ''Excellent'' \<and> confidence r = 70)"
  by (simp add: impact_analysis_def change_pct_Inr Let_def spec_percent_change_def dict_get_def EPS_def)

text \<open>
  Claim C6, as the code has it. On that input each percent change is
  \<open>100 * b / (b + EPS)\<close>, just below 100: the weighted score is
  \<open>2000014000000 / 20000300001\<close> (about 99.9992), the impact score is
  \<open>50 + weighted_score / 2 = 2000022000050 / 20000300001\<close> (about 99.9996), the
  category is Excellent and the confidence is 70.
\<close>

theorem doubled_means_scenario:
  "impact_analysis
      [''ndvi_mean'' \<mapsto> 2 / 10, ''evi_mean'' \<mapsto> 1 / 10, ''fvc_mean'' \<mapsto> 1 / 10, ''lai_mean'' \<mapsto> 1 / 10,
       ''ndvi_std'' \<mapsto> 0, ''evi_std'' \<mapsto> 0, ''fvc_std'' \<mapsto> 0, ''lai_std'' \<mapsto> 0]
      [''ndvi_mean'' \<mapsto> 4 / 10, ''evi_mean'' \<mapsto> 2 / 10, ''fvc_mean'' \<mapsto> 2 / 10, ''lai_mean'' \<mapsto> 2 / 10,
       ''ndvi_std'' \<mapsto> 0, ''evi_std'' \<mapsto> 0, ''fvc_std'' \<mapsto> 0, ''lai_std'' \<mapsto> 0]
   = Inr \<lparr>impact_score = 2000022000050 / 20000300001,
          confidence = 70,
          category = ''Excellent'',
          ndvi_change_percent = 20000000 / 200001,
          evi_change_percent = 10000000 / 100001,
          fvc_change_percent = 10000000 / 100001,
          lai_change_percent = 10000000 / 100001,
          weighted_score = 2000014000000 / 20000300001\<rparr>"
  by (simp add: impact_analysis_def change_pct_Inr Let_def spec_percent_change_def dict_get_def EPS_def
        noise_of_def clip_def category_of_def)

end
